theory Spec2Isabelle
  imports Main "HOL-Library.Product_Lexorder" "HOL-Library.Multiset"
begin

section \<open>Text\<close>

text \<open>
  Python \<^verbatim>\<open>str\<close> values are modelled as \<^typ>\<open>string\<close>. The case mapping and the
  whitespace class below are those of Python on ASCII text, which is the text the
  registry identifiers, the file extensions and the remote-work keywords consist of.
\<close>

definition lower_char :: "char \<Rightarrow> char" where
  "lower_char c =
     (case map_of (zip ''ABCDEFGHIJKLMNOPQRSTUVWXYZ'' ''abcdefghijklmnopqrstuvwxyz'') c of
        None \<Rightarrow> c
      | Some d \<Rightarrow> d)"

definition lower :: "string \<Rightarrow> string" where
  "lower s = map lower_char s"

definition isspace :: "char \<Rightarrow> bool" where
  "isspace c \<longleftrightarrow>
     c \<in> set [CHR 0x20, CHR 0x09, CHR 0x0A, CHR 0x0B, CHR 0x0C, CHR 0x0D,
                CHR 0x1C, CHR 0x1D, CHR 0x1E, CHR 0x1F]"

definition strip :: "string \<Rightarrow> string" where
  "strip s = rev (dropWhile isspace (rev (dropWhile isspace s)))"

fun startswith :: "string \<Rightarrow> string \<Rightarrow> bool" where
  "startswith s [] = True"
| "startswith [] (p # ps) = False"
| "startswith (c # cs) (p # ps) = (c = p \<and> startswith cs ps)"

text \<open>\<^verbatim>\<open>needle in hay\<close> on two strings: \<open>needle\<close> occurs in \<open>hay\<close> as a contiguous run.\<close>

fun str_in :: "string \<Rightarrow> string \<Rightarrow> bool" where
  "str_in needle [] = (needle = [])"
| "str_in needle (c # cs) = (startswith (c # cs) needle \<or> str_in needle cs)"

section \<open>Naive datetimes and their difference\<close>

text \<open>
  A naive \<^verbatim>\<open>datetime\<close> is its seven fields. Subtraction follows CPython's
  \<^verbatim>\<open>datetime.__sub__\<close>: the proleptic Gregorian ordinals of the two dates, the seconds
  of the two times of day and the two microsecond fields are subtracted, and
  \<^verbatim>\<open>timedelta\<close> normalises the three differences with floor division.
\<close>

record datetime =
  year :: nat
  month :: nat
  day :: nat
  hour :: nat
  minute :: nat
  second :: nat
  microsecond :: nat

record timedelta =
  td_days :: int
  td_seconds :: int
  td_microseconds :: int

definition is_leap :: "nat \<Rightarrow> bool" where
  "is_leap y \<longleftrightarrow> y mod 4 = 0 \<and> (y mod 100 \<noteq> 0 \<or> y mod 400 = 0)"

definition days_before_year :: "nat \<Rightarrow> int" where
  "days_before_year y =
     (let z = int y - 1 in z * 365 + z div 4 - z div 100 + z div 400)"

definition DAYS_BEFORE_MONTH :: "int list" where
  "DAYS_BEFORE_MONTH = [-1, 0, 31, 59, 90, 120, 151, 181, 212, 243, 273, 304, 334]"

definition days_before_month :: "nat \<Rightarrow> nat \<Rightarrow> int" where
  "days_before_month y m =
     (if m < length DAYS_BEFORE_MONTH then DAYS_BEFORE_MONTH ! m else 0)
     + (if m > 2 \<and> is_leap y then 1 else 0)"

definition toordinal :: "datetime \<Rightarrow> int" where
  "toordinal d = days_before_year (year d) + days_before_month (year d) (month d) + int (day d)"

definition mk_timedelta :: "int \<Rightarrow> int \<Rightarrow> int \<Rightarrow> timedelta" where
  "mk_timedelta d s us =
     (let s1 = s + us div 1000000;
          us1 = us mod 1000000;
          d1 = d + s1 div 86400;
          s2 = s1 mod 86400
      in \<lparr>td_days = d1, td_seconds = s2, td_microseconds = us1\<rparr>)"

definition day_seconds :: "datetime \<Rightarrow> int" where
  "day_seconds d = int (second d) + int (minute d) * 60 + int (hour d) * 3600"

definition dt_sub :: "datetime \<Rightarrow> datetime \<Rightarrow> timedelta" where
  "dt_sub a b =
     mk_timedelta (toordinal a - toordinal b) (day_seconds a - day_seconds b)
       (int (microsecond a) - int (microsecond b))"

text \<open>The position of a datetime on the time line, in microseconds.\<close>

definition us_of :: "datetime \<Rightarrow> int" where
  "us_of d = (toordinal d * 86400 + day_seconds d) * 1000000 + int (microsecond d)"

definition us_per_day :: int where
  "us_per_day = 86400000000"

text \<open>
  Comparison of naive datetimes is the lexicographic comparison of the field tuples
  (CPython's \<^verbatim>\<open>datetime._cmp\<close>).
\<close>

definition dt_key :: "datetime \<Rightarrow> nat \<times> nat \<times> nat \<times> nat \<times> nat \<times> nat \<times> nat" where
  "dt_key d = (year d, month d, day d, hour d, minute d, second d, microsecond d)"

section \<open>JSON values, HTTP and the world\<close>

text \<open>
  What \<^verbatim>\<open>response.json()\<close> returns: a Python object built from \<^verbatim>\<open>None\<close>, booleans,
  integers, strings, lists and dicts. A dict is the association list of its items
  (\<^const>\<open>map_of\<close> looks a key up). JSON numbers with a fraction are not modelled.
\<close>

datatype json =
    JNull
  | JBool bool
  | JNum int
  | JStr string
  | JArr "json list"
  | JObj "(string \<times> json) list"

datatype pyerr =
    AttributeError
  | TypeError
  | KeyError string
  | IndexError
  | ValueError string
  | NotImplementedError string
  | JSONDecodeError
  | OSError
  | SystemExit int
  | NonTextField

text \<open>
  \<^verbatim>\<open>requests.get(endpoint, params=params, timeout=10)\<close>: either the call raises
  (\<open>ConnError\<close>), or there is a response with a status code and a body, which
  \<^verbatim>\<open>response.json()\<close> parses (\<open>None\<close>: the body is not JSON and parsing raises).
\<close>

datatype request = Get string "(string \<times> json) list"

datatype http_result = ConnError | Response int "json option"

datatype log_entry =
    MuseContactError
  | MuseStatusError int int
  | RemotiveContactError
  | RemotiveStatusError int

text \<open>
  The environment is everything outside the repository that a run reads: the clock
  (the \<open>k\<close>-th call of \<^verbatim>\<open>datetime.utcnow()\<close> returns \<open>utcnow env k\<close>), the network
  (the \<open>k\<close>-th request gets \<open>requests_get env k\<close> of it), \<^verbatim>\<open>dateutil\<close>'s ISO-8601
  parser with the offset dropped, the regular-expression passes of \<^verbatim>\<open>_strip_html\<close>,
  \<^verbatim>\<open>int()\<close> on a string, whether a path can be opened for writing,
  \<^verbatim>\<open>strftime("%Y-%m-%d")\<close> and \<^verbatim>\<open>tabulate\<close> with the github table format.
\<close>

record env =
  utcnow :: "nat \<Rightarrow> datetime"
  requests_get :: "nat \<Rightarrow> request \<Rightarrow> http_result"
  isoparse :: "string \<Rightarrow> datetime option"
  re_strip_html :: "string \<Rightarrow> string"
  int_of_str :: "string \<Rightarrow> int option"
  can_open :: "string \<Rightarrow> bool"
  strftime_ymd :: "datetime \<Rightarrow> string"
  tabulate :: "string list list \<Rightarrow> string list \<Rightarrow> string"

text \<open>
  The world is what a run changes: how often the clock was read, the requests sent,
  the log, the files, and the two output streams.
\<close>

record world =
  clock_reads :: nat
  net_calls :: "request list"
  logged :: "log_entry list"
  files :: "string \<Rightarrow> string option"
  stdout :: "string list"
  stderr :: "string list"

section \<open>The recency check\<close>

text \<open>\<^verbatim>\<open>BaseScraper._within_days\<close> (base.py, lines 80-87).\<close>

definition within_days :: "env \<Rightarrow> datetime \<Rightarrow> int option \<Rightarrow> world \<Rightarrow> bool \<times> world" where
  "within_days e date days w =
     (case days of
        None \<Rightarrow> (True, w)
      | Some n \<Rightarrow>
          (let delta = dt_sub (utcnow e (clock_reads w)) date
           in (td_days delta < n, w\<lparr>clock_reads := Suc (clock_reads w)\<rparr>)))"

section \<open>Python operations on JSON values\<close>

text \<open>Each operation raises what Python raises on a value of the wrong type.\<close>

definition then_do :: "pyerr + 'a \<Rightarrow> ('a \<Rightarrow> pyerr + 'b) \<Rightarrow> pyerr + 'b" where
  "then_do r f = (case r of Inl err \<Rightarrow> Inl err | Inr x \<Rightarrow> f x)"

text \<open>\<^verbatim>\<open>x.get(k, default)\<close>\<close>

definition dict_get :: "json \<Rightarrow> string \<Rightarrow> json \<Rightarrow> pyerr + json" where
  "dict_get x k dflt =
     (case x of
        JObj kvs \<Rightarrow> Inr (case map_of kvs k of None \<Rightarrow> dflt | Some v \<Rightarrow> v)
      | _ \<Rightarrow> Inl AttributeError)"

text \<open>\<^verbatim>\<open>x[k]\<close> with a string key\<close>

definition subscript_key :: "json \<Rightarrow> string \<Rightarrow> pyerr + json" where
  "subscript_key x k =
     (case x of
        JObj kvs \<Rightarrow> (case map_of kvs k of None \<Rightarrow> Inl (KeyError k) | Some v \<Rightarrow> Inr v)
      | _ \<Rightarrow> Inl TypeError)"

text \<open>\<^verbatim>\<open>x[0]\<close>\<close>

definition subscript_0 :: "json \<Rightarrow> pyerr + json" where
  "subscript_0 x =
     (case x of
        JArr [] \<Rightarrow> Inl IndexError
      | JArr (v # vs) \<Rightarrow> Inr v
      | JStr [] \<Rightarrow> Inl IndexError
      | JStr (c # cs) \<Rightarrow> Inr (JStr [c])
      | JObj kvs \<Rightarrow> Inl (KeyError ''0'')
      | _ \<Rightarrow> Inl TypeError)"

text \<open>The truth value of \<^verbatim>\<open>x\<close> in \<^verbatim>\<open>if x:\<close> and \<^verbatim>\<open>not x\<close>\<close>

definition truthy :: "json \<Rightarrow> bool" where
  "truthy x =
     (case x of
        JNull \<Rightarrow> False
      | JBool b \<Rightarrow> b
      | JNum n \<Rightarrow> n \<noteq> 0
      | JStr s \<Rightarrow> s \<noteq> []
      | JArr vs \<Rightarrow> vs \<noteq> []
      | JObj kvs \<Rightarrow> kvs \<noteq> [])"

text \<open>\<^verbatim>\<open>for v in x\<close>: the elements of a list, the keys of a dict, the characters of a string\<close>

definition py_iter :: "json \<Rightarrow> pyerr + json list" where
  "py_iter x =
     (case x of
        JArr vs \<Rightarrow> Inr vs
      | JObj kvs \<Rightarrow> Inr (map (\<lambda>kv. JStr (fst kv)) kvs)
      | JStr s \<Rightarrow> Inr (map (\<lambda>c. JStr [c]) s)
      | _ \<Rightarrow> Inl TypeError)"

text \<open>\<^verbatim>\<open>x.lower()\<close> and \<^verbatim>\<open>x.strip()\<close>\<close>

definition py_lower :: "json \<Rightarrow> pyerr + string" where
  "py_lower x = (case x of JStr s \<Rightarrow> Inr (lower s) | _ \<Rightarrow> Inl AttributeError)"

definition py_strip :: "json \<Rightarrow> pyerr + string" where
  "py_strip x = (case x of JStr s \<Rightarrow> Inr (strip s) | _ \<Rightarrow> Inl AttributeError)"

text \<open>
  \<^verbatim>\<open>int(x)\<close> inside \<^verbatim>\<open>try: ... except Exception: total_pages = 0\<close>
  (themuse_scraper.py, lines 131-134).
\<close>

definition int_or_0 :: "env \<Rightarrow> json \<Rightarrow> int" where
  "int_or_0 e x =
     (case x of
        JNum n \<Rightarrow> n
      | JBool b \<Rightarrow> (if b then 1 else 0)
      | JStr s \<Rightarrow> (case int_of_str e s of None \<Rightarrow> 0 | Some n \<Rightarrow> n)
      | _ \<Rightarrow> 0)"

text \<open>
  \<^verbatim>\<open>dateutil.parser.isoparse(x).replace(tzinfo=None)\<close> inside
  \<^verbatim>\<open>try: ... except Exception: continue\<close>: \<open>None\<close> when anything was raised.
\<close>

definition parse_date :: "env \<Rightarrow> pyerr + json \<Rightarrow> datetime option" where
  "parse_date e r = (case r of Inr (JStr s) \<Rightarrow> isoparse e s | _ \<Rightarrow> None)"

text \<open>
  \<^verbatim>\<open>_strip_html\<close> (themuse_scraper.py, lines 139-155; remotive_scraper.py, lines 90-98):
  the four \<^verbatim>\<open>re.sub\<close> passes, which raise TypeError on a value that is not a string,
  and \<^verbatim>\<open>text.strip()\<close>.
\<close>

definition strip_html :: "env \<Rightarrow> json \<Rightarrow> pyerr + string" where
  "strip_html e x = (case x of JStr s \<Rightarrow> Inr (strip (re_strip_html e s)) | _ \<Rightarrow> Inl TypeError)"

text \<open>
  A value stored in a posting without a string method being called on it. The source
  stores whatever the response holds; a posting with a field that is not text is outside
  the data model (every field of \<^verbatim>\<open>JobPosting\<close> is declared \<^verbatim>\<open>str\<close>), and the model
  ends such a run with \<open>NonTextField\<close>.
\<close>

definition as_text :: "json \<Rightarrow> pyerr + string" where
  "as_text x = (case x of JStr s \<Rightarrow> Inr s | _ \<Rightarrow> Inl NonTextField)"

section \<open>Postings\<close>

text \<open>\<^verbatim>\<open>JobPosting\<close> (base.py, lines 17-38).\<close>

record JobPosting =
  title :: string
  company :: string
  location :: string
  publication_date :: datetime
  description :: string
  url :: string

section \<open>Adapter B: Remotive\<close>

definition remotive_API_ENDPOINT :: string where
  "remotive_API_ENDPOINT = ''https://remotive.com/api/remote-jobs''"

text \<open>
  The body of the \<^verbatim>\<open>for job in jobs\<close> loop up to the construction of the posting
  (remotive_scraper.py, lines 57-83): \<open>Inr None\<close> is \<^verbatim>\<open>continue\<close>.
\<close>

definition remotive_item ::
  "env \<Rightarrow> string option \<Rightarrow> int option \<Rightarrow> json \<Rightarrow> world \<Rightarrow> (pyerr + JobPosting option) \<times> world" where
  "remotive_item e locf days job w =
     (case parse_date e (dict_get job ''publication_date'' JNull) of
        None \<Rightarrow> (Inr None, w)
      | Some pub_date \<Rightarrow>
          (case within_days e pub_date days w of
             (False, w1) \<Rightarrow> (Inr None, w1)
           | (True, w1) \<Rightarrow>
               (then_do (then_do (dict_get job ''candidate_required_location'' (JStr [])) py_strip)
                  (\<lambda>job_location.
                     if (case locf of None \<Rightarrow> False | Some l \<Rightarrow> l \<noteq> [] \<and>
                           \<not> str_in (lower l) (lower job_location))
                     then Inr None
                     else
                       then_do (then_do (dict_get job ''title'' (JStr [])) py_strip) (\<lambda>title'.
                       then_do (then_do (dict_get job ''company_name'' (JStr [])) py_strip) (\<lambda>company_name.
                       then_do (then_do (dict_get job ''url'' (JStr [])) py_strip) (\<lambda>url'.
                       then_do (then_do (dict_get job ''description'' (JStr [])) (strip_html e)) (\<lambda>description'.
                         Inr (Some \<lparr>title = title', company = company_name,
                                    location = job_location, publication_date = pub_date,
                                    description = description', url = url'\<rparr>)))))),
                w1)))"

text \<open>The \<^verbatim>\<open>for job in jobs\<close> loop with its \<^verbatim>\<open>break\<close> (lines 57-86).\<close>

fun remotive_loop ::
  "env \<Rightarrow> string option \<Rightarrow> int option \<Rightarrow> int option \<Rightarrow> json list \<Rightarrow> JobPosting list \<Rightarrow> world
     \<Rightarrow> (pyerr + JobPosting list) \<times> world" where
  "remotive_loop e locf days max_results [] results w = (Inr results, w)"
| "remotive_loop e locf days max_results (job # jobs) results w =
     (case remotive_item e locf days job w of
        (Inl err, w1) \<Rightarrow> (Inl err, w1)
      | (Inr None, w1) \<Rightarrow> remotive_loop e locf days max_results jobs results w1
      | (Inr (Some posting), w1) \<Rightarrow>
          (let results1 = results @ [posting] in
           if (case max_results of None \<Rightarrow> False | Some m \<Rightarrow> int (length results1) \<ge> m)
           then (Inr results1, w1)
           else remotive_loop e locf days max_results jobs results1 w1))"

text \<open>The request parameters of lines 43-45.\<close>

definition remotive_params :: "string \<Rightarrow> (string \<times> json) list" where
  "remotive_params query = (if query \<noteq> [] then [(''search'', JStr query)] else [])"

text \<open>\<^verbatim>\<open>RemotiveScraper.search\<close> (remotive_scraper.py, lines 35-87).\<close>

definition remotive_search ::
  "env \<Rightarrow> string \<Rightarrow> string option \<Rightarrow> int option \<Rightarrow> int option \<Rightarrow> world
     \<Rightarrow> (pyerr + JobPosting list) \<times> world" where
  "remotive_search e query locf days max_results w =
     (let params = remotive_params query;
          req = Get remotive_API_ENDPOINT params;
          w1 = w\<lparr>net_calls := net_calls w @ [req]\<rparr>
      in case requests_get e (length (net_calls w)) req of
           ConnError \<Rightarrow> (Inr [], w1\<lparr>logged := logged w1 @ [RemotiveContactError]\<rparr>)
         | Response status body \<Rightarrow>
             if status \<noteq> 200
             then (Inr [], w1\<lparr>logged := logged w1 @ [RemotiveStatusError status]\<rparr>)
             else
               (case body of
                  None \<Rightarrow> (Inl JSONDecodeError, w1)
                | Some data \<Rightarrow>
                    (case then_do (dict_get data ''jobs'' (JArr [])) py_iter of
                       Inl err \<Rightarrow> (Inl err, w1)
                     | Inr jobs \<Rightarrow> remotive_loop e locf days max_results jobs [] w1)))"

section \<open>Adapter A: The Muse\<close>

definition muse_API_ENDPOINT :: string where
  "muse_API_ENDPOINT = ''https://www.themuse.com/api/public/jobs''"

definition remote_keywords :: "string list" where
  "remote_keywords = [''remote'', ''flexible'']"

text \<open>A list comprehension whose body may raise: the first error ends it.\<close>

fun map_err :: "('a \<Rightarrow> pyerr + 'b) \<Rightarrow> 'a list \<Rightarrow> pyerr + 'b list" where
  "map_err f [] = Inr []"
| "map_err f (x # xs) =
     (case f x of
        Inl err \<Rightarrow> Inl err
      | Inr y \<Rightarrow> (case map_err f xs of Inl err \<Rightarrow> Inl err | Inr ys \<Rightarrow> Inr (y # ys)))"

text \<open>\<^verbatim>\<open>any(f(x) for x in xs)\<close>: stops at the first true element, or at the first error.\<close>

fun any_err :: "('a \<Rightarrow> pyerr + bool) \<Rightarrow> 'a list \<Rightarrow> pyerr + bool" where
  "any_err f [] = Inr False"
| "any_err f (x # xs) =
     (case f x of
        Inl err \<Rightarrow> Inl err
      | Inr b \<Rightarrow> (if b then Inr True else any_err f xs))"

text \<open>\<^verbatim>\<open>loc_names = [loc.get("name", "") for loc in job.get("locations", [])]\<close> (line 93)\<close>

definition loc_names :: "json \<Rightarrow> pyerr + json list" where
  "loc_names job =
     then_do (then_do (dict_get job ''locations'' (JArr [])) py_iter)
       (map_err (\<lambda>loc. dict_get loc ''name'' (JStr [])))"

text \<open>The value of \<^verbatim>\<open>match\<close> at line 102, for a location filter \<open>l\<close> (lines 93-101).\<close>

definition location_match :: "string \<Rightarrow> json \<Rightarrow> pyerr + bool" where
  "location_match l job =
     then_do (loc_names job) (\<lambda>names.
     then_do (any_err (\<lambda>loc_name. then_do (py_lower loc_name) (\<lambda>s. Inr (str_in (lower l) s))) names)
       (\<lambda>match.
          if \<not> match
          then any_err (\<lambda>loc_name.
                 any_err (\<lambda>keyword. then_do (py_lower loc_name) (\<lambda>s. Inr (str_in keyword s)))
                   remote_keywords) names
          else Inr match))"

text \<open>Lines 108-112: the first location name, or the empty string.\<close>

definition first_location :: "json \<Rightarrow> pyerr + string" where
  "first_location job =
     then_do (dict_get job ''locations'' (JArr [])) (\<lambda>loc.
       if truthy loc
       then then_do (then_do (subscript_0 loc) (\<lambda>l0. dict_get l0 ''name'' (JStr []))) as_text
       else Inr [])"

text \<open>
  The body of the \<^verbatim>\<open>for job in jobs\<close> loop up to the construction of the posting
  (themuse_scraper.py, lines 83-123): \<open>Inr None\<close> is \<^verbatim>\<open>continue\<close>.
\<close>

definition muse_item ::
  "env \<Rightarrow> string option \<Rightarrow> int option \<Rightarrow> json \<Rightarrow> world \<Rightarrow> (pyerr + JobPosting option) \<times> world" where
  "muse_item e locf days job w =
     (case parse_date e (subscript_key job ''publication_date'') of
        None \<Rightarrow> (Inr None, w)
      | Some pub_date \<Rightarrow>
          (case within_days e pub_date days w of
             (False, w1) \<Rightarrow> (Inr None, w1)
           | (True, w1) \<Rightarrow>
               (then_do
                  (case locf of
                     None \<Rightarrow> Inr True
                   | Some l \<Rightarrow> if l \<noteq> [] then location_match l job else Inr True)
                  (\<lambda>match.
                     if \<not> match then Inr None
                     else
                       then_do (then_do (dict_get job ''name'' (JStr [])) py_strip) (\<lambda>title'.
                       then_do (then_do (then_do (dict_get job ''company'' (JObj []))
                                  (\<lambda>c. dict_get c ''name'' (JStr []))) py_strip) (\<lambda>company_name.
                       then_do (first_location job) (\<lambda>loc_str.
                       then_do (then_do (dict_get job ''contents'' (JStr [])) (strip_html e)) (\<lambda>description'.
                       then_do (then_do (then_do (dict_get job ''refs'' (JObj []))
                                  (\<lambda>r. dict_get r ''landing_page'' (JStr []))) as_text) (\<lambda>url'.
                         Inr (Some \<lparr>title = title', company = company_name,
                                    location = loc_str, publication_date = pub_date,
                                    description = description', url = url'\<rparr>))))))),
                w1)))"

text \<open>
  How the \<^verbatim>\<open>for job in jobs\<close> loop ends: with \<^verbatim>\<open>return results\<close> at line 127, or by
  running out of items, with the results and the counter as they then are.
\<close>

datatype items_exit = Return "JobPosting list" | Exhausted "JobPosting list" int

fun muse_items ::
  "env \<Rightarrow> string option \<Rightarrow> int option \<Rightarrow> int option \<Rightarrow> json list \<Rightarrow> int \<Rightarrow> JobPosting list \<Rightarrow> world
     \<Rightarrow> (pyerr + items_exit) \<times> world" where
  "muse_items e locf days max_results [] fetched results w = (Inr (Exhausted results fetched), w)"
| "muse_items e locf days max_results (job # jobs) fetched results w =
     (case muse_item e locf days job w of
        (Inl err, w1) \<Rightarrow> (Inl err, w1)
      | (Inr None, w1) \<Rightarrow> muse_items e locf days max_results jobs fetched results w1
      | (Inr (Some posting), w1) \<Rightarrow>
          (let results1 = results @ [posting];
               fetched1 = fetched + 1
           in if (case max_results of None \<Rightarrow> False | Some m \<Rightarrow> fetched1 \<ge> m)
              then (Inr (Return results1), w1)
              else muse_items e locf days max_results jobs fetched1 results1 w1))"

text \<open>The request parameters of lines 61-66.\<close>

definition muse_params :: "string \<Rightarrow> string option \<Rightarrow> int \<Rightarrow> (string \<times> json) list" where
  "muse_params query locf page =
     [(''page'', JNum page)]
     @ (if query \<noteq> [] then [(''q'', JStr query)] else [])
     @ (case locf of None \<Rightarrow> [] | Some l \<Rightarrow> if l \<noteq> [] then [(''location'', JStr l)] else [])"

text \<open>
  The \<^verbatim>\<open>while True\<close> loop (lines 56-136), from the state \<open>page\<close>, \<open>fetched\<close>,
  \<open>total_pages\<close>, \<open>results\<close>. It ends: once \<open>total_pages\<close> is set it never changes, and
  \<open>page\<close> grows by one in every round.
\<close>

function muse_pages ::
  "env \<Rightarrow> string \<Rightarrow> string option \<Rightarrow> int option \<Rightarrow> int option \<Rightarrow> int \<Rightarrow> int \<Rightarrow> int option
     \<Rightarrow> JobPosting list \<Rightarrow> world \<Rightarrow> (pyerr + JobPosting list) \<times> world" where
  "muse_pages e query locf days max_results page fetched total_pages results w =
     (if (case total_pages of None \<Rightarrow> False | Some t \<Rightarrow> page > t) then (Inr results, w)
      else
        (let req = Get muse_API_ENDPOINT (muse_params query locf page);
             w1 = w\<lparr>net_calls := net_calls w @ [req]\<rparr>
         in case requests_get e (length (net_calls w)) req of
              ConnError \<Rightarrow> (Inr results, w1\<lparr>logged := logged w1 @ [MuseContactError]\<rparr>)
            | Response status body \<Rightarrow>
                if status \<noteq> 200
                then (Inr results, w1\<lparr>logged := logged w1 @ [MuseStatusError status page]\<rparr>)
                else
                  (case body of
                     None \<Rightarrow> (Inl JSONDecodeError, w1)
                   | Some data \<Rightarrow>
                       (case dict_get data ''results'' (JArr []) of
                          Inl err \<Rightarrow> (Inl err, w1)
                        | Inr jobs \<Rightarrow>
                            if \<not> truthy jobs then (Inr results, w1)
                            else
                              (case py_iter jobs of
                                 Inl err \<Rightarrow> (Inl err, w1)
                               | Inr items \<Rightarrow>
                                   (case muse_items e locf days max_results items fetched results w1 of
                                      (Inl err, w2) \<Rightarrow> (Inl err, w2)
                                    | (Inr (Return rs), w2) \<Rightarrow> (Inr rs, w2)
                                    | (Inr (Exhausted rs f), w2) \<Rightarrow>
                                        muse_pages e query locf days max_results (page + 1) f
                                          (case total_pages of
                                             None \<Rightarrow>
                                               (case dict_get data ''page_count'' (JNum 0) of
                                                  Inl err \<Rightarrow> Some 0
                                                | Inr c \<Rightarrow> Some (int_or_0 e c))
                                           | Some t \<Rightarrow> Some t)
                                          rs w2))))))"
  by pat_completeness auto
termination
proof (relation "inv_image (less_than <*lex*> less_than)
    (\<lambda>(e, query, locf, days, max_results, page, fetched, total_pages, results, w).
       (case total_pages of None \<Rightarrow> (1::nat, 0::nat) | Some t \<Rightarrow> (0, nat (t + 1 - page))))", goal_cases)
  case 1
  show ?case by (intro wf_inv_image wf_lex_prod wf_less_than)
next
  case (2 e query locf days max_results page fetched total_pages results w)
  then show ?case by (auto split: option.splits sum.splits)
qed

text \<open>\<^verbatim>\<open>TheMuseScraper.search\<close> (themuse_scraper.py, lines 40-137).\<close>

definition muse_search ::
  "env \<Rightarrow> string \<Rightarrow> string option \<Rightarrow> int option \<Rightarrow> int option \<Rightarrow> world
     \<Rightarrow> (pyerr + JobPosting list) \<times> world" where
  "muse_search e query locf days max_results w =
     muse_pages e query locf days max_results 1 0 None [] w"

declare muse_pages.simps [simp del]

section \<open>The unsupported adapters and the registry\<close>

datatype scraper = TheMuseScraper | IndeedScraper | LinkedInScraper | RemotiveScraper

fun site_name :: "scraper \<Rightarrow> string" where
  "site_name TheMuseScraper = ''themuse''"
| "site_name IndeedScraper = ''indeed''"
| "site_name LinkedInScraper = ''linkedin''"
| "site_name RemotiveScraper = ''remotive''"

text \<open>
  The two messages (indeed_scraper.py, lines 29-31; linkedin_scraper.py, lines 29-31).
  The hyphen of \<open>third-party\<close> in the first is U+2011, three bytes in UTF-8.
\<close>

definition indeed_message :: string where
  "indeed_message =
     ''Indeed scraping is not implemented. Indeed restricts scraping; ''
     @ ''consider using their official API or third'' @ [CHR 0xE2, CHR 0x80, CHR 0x91]
     @ ''party services.''"

definition linkedin_message :: string where
  "linkedin_message =
     ''LinkedIn scraping is not implemented. LinkedIn terms of service prohibit ''
     @ ''automated scraping; please use their official API or other tools.''"

text \<open>\<^verbatim>\<open>scraper.search(query, location=..., days=..., max_results=...)\<close>, by class.\<close>

fun search ::
  "env \<Rightarrow> scraper \<Rightarrow> string \<Rightarrow> string option \<Rightarrow> int option \<Rightarrow> int option \<Rightarrow> world
     \<Rightarrow> (pyerr + JobPosting list) \<times> world" where
  "search e TheMuseScraper query locf days max_results w =
     muse_search e query locf days max_results w"
| "search e RemotiveScraper query locf days max_results w =
     remotive_search e query locf days max_results w"
| "search e IndeedScraper query locf days max_results w =
     (Inl (NotImplementedError indeed_message), w)"
| "search e LinkedInScraper query locf days max_results w =
     (Inl (NotImplementedError linkedin_message), w)"

text \<open>\<^verbatim>\<open>SCRAPERS\<close> (scrapers/__init__.py, lines 17-22), in insertion order.\<close>

definition SCRAPERS :: "(string \<times> scraper) list" where
  "SCRAPERS =
     [(site_name TheMuseScraper, TheMuseScraper),
      (site_name IndeedScraper, IndeedScraper),
      (site_name LinkedInScraper, LinkedInScraper),
      (site_name RemotiveScraper, RemotiveScraper)]"

text \<open>\<^verbatim>\<open>sep.join(xs)\<close>\<close>

fun join :: "string \<Rightarrow> string list \<Rightarrow> string" where
  "join sep [] = []"
| "join sep [x] = x"
| "join sep (x # y # ys) = x @ sep @ join sep (y # ys)"

text \<open>\<^verbatim>\<open>get_scraper\<close> (job_scraper/__init__.py, lines 12-24).\<close>

definition get_scraper :: "string \<Rightarrow> pyerr + scraper" where
  "get_scraper site_name' =
     (let site = lower site_name' in
      case map_of SCRAPERS site of
        None \<Rightarrow>
          Inl (KeyError (''Unknown site '' @ [CHR 0x27] @ site_name' @ [CHR 0x27]
                 @ ''. Available sites: '' @ join '', '' (map fst SCRAPERS)))
      | Some cls \<Rightarrow> Inr cls)"

section \<open>Sorting\<close>

text \<open>
  \<^verbatim>\<open>jobs.sort(key=lambda j: j.publication_date, reverse=True)\<close> (cli.py, line 131):
  Python's sort is stable, also with \<^verbatim>\<open>reverse=True\<close>, so postings with equal dates
  keep their order. Inserting from the right, in front of the first posting that is
  not later, gives that list.
\<close>

fun insert_desc :: "JobPosting \<Rightarrow> JobPosting list \<Rightarrow> JobPosting list" where
  "insert_desc x [] = [x]"
| "insert_desc x (y # ys) =
     (if dt_key (publication_date x) < dt_key (publication_date y)
      then y # insert_desc x ys
      else x # y # ys)"

fun sort_desc :: "JobPosting list \<Rightarrow> JobPosting list" where
  "sort_desc [] = []"
| "sort_desc (x # xs) = insert_desc x (sort_desc xs)"

section \<open>Serialisation\<close>

text \<open>\<^verbatim>\<open>"%d" % n\<close> and \<^verbatim>\<open>"%0wd" % n\<close> for \<open>n \<ge> 0\<close>.\<close>

definition digit_char :: "nat \<Rightarrow> char" where
  "digit_char d = ''0123456789'' ! (d mod 10)"

fun dec :: "nat \<Rightarrow> string" where
  "dec n = (if n < 10 then [digit_char n] else dec (n div 10) @ [digit_char (n mod 10)])"

declare dec.simps [simp del]

definition fmt_d :: "nat \<Rightarrow> nat \<Rightarrow> string" where
  "fmt_d width n = replicate (width - length (dec n)) (CHR ''0'') @ dec n"

text \<open>\<^verbatim>\<open>datetime.isoformat()\<close> of a naive datetime.\<close>

definition isoformat :: "datetime \<Rightarrow> string" where
  "isoformat d =
     fmt_d 4 (year d) @ ''-'' @ fmt_d 2 (month d) @ ''-'' @ fmt_d 2 (day d) @ ''T''
     @ fmt_d 2 (hour d) @ '':'' @ fmt_d 2 (minute d) @ '':'' @ fmt_d 2 (second d)
     @ (if microsecond d \<noteq> 0 then ''.'' @ fmt_d 6 (microsecond d) else [])"

text \<open>\<^verbatim>\<open>JobPosting.to_dict\<close> (base.py, lines 27-38): the items, in insertion order.\<close>

definition to_dict :: "JobPosting \<Rightarrow> (string \<times> string) list" where
  "to_dict job =
     [(''title'', title job),
      (''company'', company job),
      (''location'', location job),
      (''publication_date'', isoformat (publication_date job)),
      (''description'', description job),
      (''url'', url job)]"

section \<open>The output sink\<close>

text \<open>\<^verbatim>\<open>s.rfind(c)\<close>: the last index of \<open>c\<close> in \<open>s\<close>, or \<open>-1\<close>.\<close>

fun rfind_from :: "char \<Rightarrow> string \<Rightarrow> int \<Rightarrow> int \<Rightarrow> int" where
  "rfind_from c [] i found = found"
| "rfind_from c (x # xs) i found = rfind_from c xs (i + 1) (if x = c then i else found)"

definition rfind :: "char \<Rightarrow> string \<Rightarrow> int" where
  "rfind c s = rfind_from c s 0 (-1)"

text \<open>
  \<^verbatim>\<open>os.path.splitext\<close> on POSIX: the extension starts at the last dot of the last path
  component, unless that component has nothing but dots before it.
\<close>

definition splitext :: "string \<Rightarrow> string \<times> string" where
  "splitext p =
     (let sepIndex = rfind (CHR ''/'') p;
          dotIndex = rfind (CHR ''.'') p
      in if dotIndex > sepIndex
            \<and> \<not> list_all (\<lambda>c. c = CHR ''.'')
                  (take (nat (dotIndex - (sepIndex + 1))) (drop (nat (sepIndex + 1)) p))
         then (take (nat dotIndex) p, drop (nat dotIndex) p)
         else (p, []))"

text \<open>
  \<^verbatim>\<open>json.dump(value, f, ensure_ascii=False, indent=2)\<close> on a list of dicts from strings
  to strings. A string is written between double quotes, with the double quote, the
  backslash and the control characters below U+0020 escaped.
\<close>

definition hex_char :: "nat \<Rightarrow> char" where
  "hex_char d = ''0123456789abcdef'' ! (d mod 16)"

definition json_escape :: "char \<Rightarrow> string" where
  "json_escape c =
     (if c = CHR 0x22 then [CHR 0x5C, CHR 0x22]
      else if c = CHR 0x5C then [CHR 0x5C, CHR 0x5C]
      else if c = CHR 0x0A then [CHR 0x5C, CHR ''n'']
      else if c = CHR 0x0D then [CHR 0x5C, CHR ''r'']
      else if c = CHR 0x09 then [CHR 0x5C, CHR ''t'']
      else if c = CHR 0x08 then [CHR 0x5C, CHR ''b'']
      else if c = CHR 0x0C then [CHR 0x5C, CHR ''f'']
      else if (of_char c :: nat) < 32
      then [CHR 0x5C, CHR ''u'', CHR ''0'', CHR ''0'',
            hex_char ((of_char c :: nat) div 16), hex_char ((of_char c :: nat) mod 16)]
      else [c])"

definition json_string :: "string \<Rightarrow> string" where
  "json_string s = [CHR 0x22] @ concat (map json_escape s) @ [CHR 0x22]"

definition newline_indent :: "nat \<Rightarrow> string" where
  "newline_indent level = [CHR 0x0A] @ replicate (2 * level) (CHR '' '')"

definition json_dict :: "nat \<Rightarrow> (string \<times> string) list \<Rightarrow> string" where
  "json_dict level kvs =
     (if kvs = [] then ''{}''
      else ''{'' @ newline_indent (level + 1)
           @ join ('','' @ newline_indent (level + 1))
               (map (\<lambda>kv. json_string (fst kv) @ '': '' @ json_string (snd kv)) kvs)
           @ newline_indent level @ ''}'')"

definition json_dump :: "(string \<times> string) list list \<Rightarrow> string" where
  "json_dump ds =
     (if ds = [] then ''[]''
      else ''['' @ newline_indent 1
           @ join ('','' @ newline_indent 1) (map (json_dict 1) ds)
           @ newline_indent 0 @ '']'')"

text \<open>
  \<^verbatim>\<open>csv.DictWriter\<close> with the default dialect: fields separated by commas, rows ended by
  CR LF, a field holding a comma, a double quote, CR or LF written between double quotes
  with its double quotes doubled.
\<close>

definition csv_fieldnames :: "string list" where
  "csv_fieldnames = [''title'', ''company'', ''location'', ''publication_date'', ''description'', ''url'']"

definition csv_field :: "string \<Rightarrow> string" where
  "csv_field s =
     (if list_ex (\<lambda>c. c \<in> set [CHR '','', CHR 0x22, CHR 0x0D, CHR 0x0A]) s
      then [CHR 0x22] @ concat (map (\<lambda>c. if c = CHR 0x22 then [CHR 0x22, CHR 0x22] else [c]) s)
           @ [CHR 0x22]
      else s)"

definition csv_row :: "string list \<Rightarrow> string" where
  "csv_row cells = join '','' (map csv_field cells) @ [CHR 0x0D, CHR 0x0A]"

definition csv_dict_row :: "(string \<times> string) list \<Rightarrow> string" where
  "csv_dict_row d =
     csv_row (map (\<lambda>k. case map_of d k of None \<Rightarrow> [] | Some v \<Rightarrow> v) csv_fieldnames)"

definition csv_dump :: "(string \<times> string) list list \<Rightarrow> string" where
  "csv_dump ds = csv_row csv_fieldnames @ concat (map csv_dict_row ds)"

text \<open>
  \<^verbatim>\<open>write_output\<close> (cli.py, lines 85-109). \<^verbatim>\<open>open(path, "w")\<close> raises OSError where the
  path cannot be opened; otherwise the file holds what was written when it is closed.
\<close>

definition write_output :: "env \<Rightarrow> JobPosting list \<Rightarrow> string \<Rightarrow> world \<Rightarrow> (pyerr + unit) \<times> world" where
  "write_output e jobs path w =
     (let ext = lower (snd (splitext path)) in
      if ext = ''.json'' then
        (if \<not> can_open e path then (Inl OSError, w)
         else (Inr (),
               w\<lparr>files := (files w)(path \<mapsto> json_dump (map to_dict jobs)),
                 stdout := stdout w @ [''Wrote '' @ dec (length jobs) @ '' jobs to '' @ path]\<rparr>))
      else if ext = ''.csv'' then
        (if \<not> can_open e path then (Inl OSError, w)
         else (Inr (),
               w\<lparr>files := (files w)(path \<mapsto> csv_dump (map to_dict jobs)),
                 stdout := stdout w @ [''Wrote '' @ dec (length jobs) @ '' jobs to '' @ path]\<rparr>))
      else
        (Inl (ValueError (''Unsupported output format '' @ [CHR 0x27] @ ext @ [CHR 0x27]
                @ ''. Please use .json or .csv.'')), w))"

text \<open>\<^verbatim>\<open>format_console\<close> (cli.py, lines 69-82).\<close>

definition format_console :: "env \<Rightarrow> JobPosting list \<Rightarrow> world \<Rightarrow> (pyerr + unit) \<times> world" where
  "format_console e jobs w =
     (let rows = map (\<lambda>job. [title job, company job, location job,
                              strftime_ymd e (publication_date job), url job]) jobs;
          headers = [''Title'', ''Company'', ''Location'', ''Posted'', ''URL'']
      in (Inr (), w\<lparr>stdout := stdout w @ [tabulate e rows headers]\<rparr>))"

section \<open>The orchestrator\<close>

text \<open>The parsed command line (cli.py, lines 26-66).\<close>

record args =
  arg_site :: string
  arg_query :: string
  arg_location :: "string option"
  arg_days :: int
  arg_max_results :: int
  arg_output :: "string option"

text \<open>Line 117: \<^verbatim>\<open>days = args.days if args.days > 0 else None\<close>.\<close>

definition main_days :: "args \<Rightarrow> int option" where
  "main_days a = (if arg_days a > 0 then Some (arg_days a) else None)"

text \<open>\<^verbatim>\<open>main\<close> (cli.py, lines 112-135), from the parsed arguments on.\<close>

definition main :: "env \<Rightarrow> args \<Rightarrow> world \<Rightarrow> (pyerr + unit) \<times> world" where
  "main e a w =
     (let site = lower (arg_site a) in
      case get_scraper site of
        Inl err \<Rightarrow> (Inl err, w)
      | Inr scraper \<Rightarrow>
          (let days = main_days a in
           case search e scraper (arg_query a) (arg_location a) days (Some (arg_max_results a)) w of
             (Inl (NotImplementedError msg), w1) \<Rightarrow>
               (Inl (SystemExit 1), w1\<lparr>stderr := stderr w1 @ [msg]\<rparr>)
           | (Inl err, w1) \<Rightarrow> (Inl err, w1)
           | (Inr found, w1) \<Rightarrow>
               (let jobs = sort_desc found in
                case arg_output a of
                  None \<Rightarrow> format_console e jobs w1
                | Some path \<Rightarrow>
                    if path \<noteq> [] then write_output e jobs path w1
                    else format_console e jobs w1)))"

section \<open>Reading the JSON file back\<close>

text \<open>
  The repository writes the file and has no reader. The round trip is stated against the
  reader below: a JSON reader for what \<^const>\<open>json_dump\<close> can write, an array of objects
  whose values are strings, and a reader of the timestamps \<^const>\<open>isoformat\<close> writes.
\<close>

datatype token = LBracket | RBracket | LBrace | RBrace | Colon | Comma | Str string

text \<open>
  The lexer reads one character at a time. Outside a string it skips white space; in a
  string it collects characters up to the closing quote, decoding the escapes.
\<close>

datatype lex_state =
    Outside
  | Inside string
  | Escape string
  | Unicode string "nat list"

definition is_ws :: "char \<Rightarrow> bool" where
  "is_ws c \<longleftrightarrow> c \<in> set [CHR '' '', CHR 0x0A, CHR 0x0D, CHR 0x09]"

definition punct :: "char \<Rightarrow> token option" where
  "punct c =
     map_of [(CHR ''['', LBracket), (CHR '']'', RBracket), (CHR ''{'', LBrace),
             (CHR ''}'', RBrace), (CHR '':'', Colon), (CHR '','', Comma)] c"

definition unescape :: "char \<Rightarrow> char option" where
  "unescape c =
     map_of [(CHR 0x22, CHR 0x22), (CHR 0x5C, CHR 0x5C), (CHR ''/'', CHR ''/''),
             (CHR ''b'', CHR 0x08), (CHR ''f'', CHR 0x0C), (CHR ''n'', CHR 0x0A),
             (CHR ''r'', CHR 0x0D), (CHR ''t'', CHR 0x09)] c"

definition hex_val :: "char \<Rightarrow> nat option" where
  "hex_val c = map_of (zip ''0123456789abcdef'' [0..<16] @ zip ''ABCDEF'' [10..<16]) c"

fun lex :: "lex_state \<Rightarrow> string \<Rightarrow> token list option" where
  "lex Outside [] = Some []"
| "lex Outside (c # cs) =
     (if is_ws c then lex Outside cs
      else if c = CHR 0x22 then lex (Inside []) cs
      else (case punct c of
              None \<Rightarrow> None
            | Some t \<Rightarrow> map_option (\<lambda>ts. t # ts) (lex Outside cs)))"
| "lex (Inside acc) [] = None"
| "lex (Inside acc) (c # cs) =
     (if c = CHR 0x22 then map_option (\<lambda>ts. Str (rev acc) # ts) (lex Outside cs)
      else if c = CHR 0x5C then lex (Escape acc) cs
      else if (of_char c :: nat) < 32 then None
      else lex (Inside (c # acc)) cs)"
| "lex (Escape acc) [] = None"
| "lex (Escape acc) (c # cs) =
     (if c = CHR ''u'' then lex (Unicode acc []) cs
      else (case unescape c of
              None \<Rightarrow> None
            | Some d \<Rightarrow> lex (Inside (d # acc)) cs))"
| "lex (Unicode acc ds) [] = None"
| "lex (Unicode acc ds) (c # cs) =
     (case hex_val c of
        None \<Rightarrow> None
      | Some d \<Rightarrow>
          if length ds < 3 then lex (Unicode acc (ds @ [d])) cs
          else (let n = foldl (\<lambda>a b. a * 16 + b) 0 (ds @ [d]) in
                if n < 256 then lex (Inside (char_of n # acc)) cs else None))"

text \<open>
  The parser is an automaton over the tokens. Its state says what may come next, and
  carries the objects read so far and the items of the object being read.
\<close>

datatype p_state =
    Start
  | ArrOpen
  | ObjOpen "(string \<times> string) list list"
  | Key "(string \<times> string) list list" "(string \<times> string) list" string
  | Val "(string \<times> string) list list" "(string \<times> string) list" string
  | AfterVal "(string \<times> string) list list" "(string \<times> string) list"
  | NextKey "(string \<times> string) list list" "(string \<times> string) list"
  | AfterObj "(string \<times> string) list list"
  | NextObj "(string \<times> string) list list"
  | Done "(string \<times> string) list list"

definition p_step :: "p_state \<Rightarrow> token \<Rightarrow> p_state option" where
  "p_step st t =
     (case st of
        Start \<Rightarrow> (case t of LBracket \<Rightarrow> Some ArrOpen | _ \<Rightarrow> None)
      | ArrOpen \<Rightarrow>
          (case t of RBracket \<Rightarrow> Some (Done []) | LBrace \<Rightarrow> Some (ObjOpen []) | _ \<Rightarrow> None)
      | ObjOpen ds \<Rightarrow>
          (case t of RBrace \<Rightarrow> Some (AfterObj (ds @ [[]])) | Str k \<Rightarrow> Some (Key ds [] k)
           | _ \<Rightarrow> None)
      | Key ds kvs k \<Rightarrow> (case t of Colon \<Rightarrow> Some (Val ds kvs k) | _ \<Rightarrow> None)
      | Val ds kvs k \<Rightarrow> (case t of Str v \<Rightarrow> Some (AfterVal ds (kvs @ [(k, v)])) | _ \<Rightarrow> None)
      | AfterVal ds kvs \<Rightarrow>
          (case t of Comma \<Rightarrow> Some (NextKey ds kvs) | RBrace \<Rightarrow> Some (AfterObj (ds @ [kvs]))
           | _ \<Rightarrow> None)
      | NextKey ds kvs \<Rightarrow> (case t of Str k \<Rightarrow> Some (Key ds kvs k) | _ \<Rightarrow> None)
      | AfterObj ds \<Rightarrow>
          (case t of Comma \<Rightarrow> Some (NextObj ds) | RBracket \<Rightarrow> Some (Done ds) | _ \<Rightarrow> None)
      | NextObj ds \<Rightarrow> (case t of LBrace \<Rightarrow> Some (ObjOpen ds) | _ \<Rightarrow> None)
      | Done ds \<Rightarrow> None)"

fun p_run :: "p_state \<Rightarrow> token list \<Rightarrow> (string \<times> string) list list option" where
  "p_run st [] = (case st of Done ds \<Rightarrow> Some ds | _ \<Rightarrow> None)"
| "p_run st (t # ts) = (case p_step st t of None \<Rightarrow> None | Some st' \<Rightarrow> p_run st' ts)"

definition json_load :: "string \<Rightarrow> (string \<times> string) list list option" where
  "json_load text = (case lex Outside text of None \<Rightarrow> None | Some ts \<Rightarrow> p_run Start ts)"

text \<open>The values a \<^verbatim>\<open>datetime\<close> can have.\<close>

definition days_in_month :: "nat \<Rightarrow> nat \<Rightarrow> nat" where
  "days_in_month y m =
     (if m = 2 \<and> is_leap y then 29
      else [0, 31, 28, 31, 30, 31, 30, 31, 31, 30, 31, 30, 31] ! m)"

definition valid_datetime :: "datetime \<Rightarrow> bool" where
  "valid_datetime d \<longleftrightarrow>
     1 \<le> year d \<and> year d \<le> 9999 \<and> 1 \<le> month d \<and> month d \<le> 12
     \<and> 1 \<le> day d \<and> day d \<le> days_in_month (year d) (month d)
     \<and> hour d < 24 \<and> minute d < 60 \<and> second d < 60 \<and> microsecond d < 1000000"

text \<open>Exactly \<open>width\<close> decimal digits, and one given character.\<close>

definition digit_val :: "char \<Rightarrow> nat option" where
  "digit_val c = map_of (zip ''0123456789'' [0..<10]) c"

fun read_num :: "nat \<Rightarrow> nat \<Rightarrow> string \<Rightarrow> (nat \<times> string) option" where
  "read_num 0 acc s = Some (acc, s)"
| "read_num (Suc width) acc [] = None"
| "read_num (Suc width) acc (c # cs) =
     (case digit_val c of None \<Rightarrow> None | Some d \<Rightarrow> read_num width (acc * 10 + d) cs)"

definition expect :: "char \<Rightarrow> string \<Rightarrow> string option" where
  "expect c s = (case s of [] \<Rightarrow> None | x # xs \<Rightarrow> if x = c then Some xs else None)"

text \<open>
  \<open>YYYY-MM-DDTHH:MM:SS\<close>, with \<open>.ffffff\<close> after it or not, of a datetime that exists.
\<close>

definition fromisoformat :: "string \<Rightarrow> datetime option" where
  "fromisoformat s =
     Option.bind (read_num 4 0 s) (\<lambda>(y, s1).
     Option.bind (expect (CHR ''-'') s1) (\<lambda>s2.
     Option.bind (read_num 2 0 s2) (\<lambda>(m, s3).
     Option.bind (expect (CHR ''-'') s3) (\<lambda>s4.
     Option.bind (read_num 2 0 s4) (\<lambda>(d, s5).
     Option.bind (expect (CHR ''T'') s5) (\<lambda>s6.
     Option.bind (read_num 2 0 s6) (\<lambda>(h, s7).
     Option.bind (expect (CHR '':'') s7) (\<lambda>s8.
     Option.bind (read_num 2 0 s8) (\<lambda>(mi, s9).
     Option.bind (expect (CHR '':'') s9) (\<lambda>s10.
     Option.bind (read_num 2 0 s10) (\<lambda>(sec, s11).
     Option.bind
       (if s11 = [] then Some (0, [])
        else Option.bind (expect (CHR ''.'') s11) (read_num 6 0))
       (\<lambda>(us, s13).
          (let dt = \<lparr>year = y, month = m, day = d, hour = h, minute = mi, second = sec,
                     microsecond = us\<rparr>
           in if s13 = [] \<and> valid_datetime dt then Some dt else None)))))))))))))"

text \<open>A posting from the flat key-value form.\<close>

definition from_dict :: "(string \<times> string) list \<Rightarrow> JobPosting option" where
  "from_dict d =
     Option.bind (map_of d ''title'') (\<lambda>t.
     Option.bind (map_of d ''company'') (\<lambda>c.
     Option.bind (map_of d ''location'') (\<lambda>l.
     Option.bind (map_of d ''publication_date'') (\<lambda>p.
     Option.bind (map_of d ''description'') (\<lambda>de.
     Option.bind (map_of d ''url'') (\<lambda>u.
     Option.bind (fromisoformat p) (\<lambda>date.
       Some \<lparr>title = t, company = c, location = l, publication_date = date,
             description = de, url = u\<rparr>)))))))"

definition read_jobs :: "string \<Rightarrow> JobPosting list option" where
  "read_jobs text =
     (case json_load text of None \<Rightarrow> None | Some ds \<Rightarrow> those (map from_dict ds))"

section \<open>Names for the parts of a run\<close>

text \<open>The postings an exit of the item loop carries.\<close>

fun results_of :: "items_exit \<Rightarrow> JobPosting list" where
  "results_of (Return rs) = rs"
| "results_of (Exhausted rs f) = rs"

text \<open>
  One round of the \<^verbatim>\<open>while True\<close> loop up to the item loop: the request is sent and
  the response is looked at. \<open>Break\<close> is one of the three \<^verbatim>\<open>break\<close>s of lines 72, 77
  and 81, \<open>Raise\<close> an exception that leaves \<^verbatim>\<open>search\<close>, \<open>Page\<close> a page with its items.
\<close>

datatype fetched_page = Break world | Raise pyerr world | Page json "json list" world

definition muse_fetch :: "env \<Rightarrow> string \<Rightarrow> string option \<Rightarrow> int \<Rightarrow> world \<Rightarrow> fetched_page" where
  "muse_fetch e query locf page w =
     (let req = Get muse_API_ENDPOINT (muse_params query locf page);
          w1 = w\<lparr>net_calls := net_calls w @ [req]\<rparr>
      in case requests_get e (length (net_calls w)) req of
           ConnError \<Rightarrow> Break (w1\<lparr>logged := logged w1 @ [MuseContactError]\<rparr>)
         | Response status body \<Rightarrow>
             if status \<noteq> 200
             then Break (w1\<lparr>logged := logged w1 @ [MuseStatusError status page]\<rparr>)
             else
               (case body of
                  None \<Rightarrow> Raise JSONDecodeError w1
                | Some data \<Rightarrow>
                    (case dict_get data ''results'' (JArr []) of
                       Inl err \<Rightarrow> Raise err w1
                     | Inr jobs \<Rightarrow>
                         if \<not> truthy jobs then Break w1
                         else
                           (case py_iter jobs of
                              Inl err \<Rightarrow> Raise err w1
                            | Inr items \<Rightarrow> Page data items w1))))"

definition next_total_pages :: "env \<Rightarrow> json \<Rightarrow> int option \<Rightarrow> int option" where
  "next_total_pages e data total_pages =
     (case total_pages of
        None \<Rightarrow>
          (case dict_get data ''page_count'' (JNum 0) of
             Inl err \<Rightarrow> Some 0
           | Inr c \<Rightarrow> Some (int_or_0 e c))
      | Some t \<Rightarrow> Some t)"

definition past_last_page :: "int option \<Rightarrow> int \<Rightarrow> bool" where
  "past_last_page total_pages page = (case total_pages of None \<Rightarrow> False | Some t \<Rightarrow> page > t)"

text \<open>A request that raised, or a response whose status is not 200.\<close>

definition http_failed :: "http_result \<Rightarrow> bool" where
  "http_failed r = (case r of ConnError \<Rightarrow> True | Response status body \<Rightarrow> status \<noteq> 200)"

text \<open>
  A posting passed the recency check of a run from world \<open>w\<close> to world \<open>w'\<close>: at one of
  the clock readings taken during the run, it was less than \<open>D\<close> days old.
\<close>

definition recent :: "env \<Rightarrow> world \<Rightarrow> world \<Rightarrow> int \<Rightarrow> JobPosting \<Rightarrow> bool" where
  "recent e w w' D p \<longleftrightarrow>
     (\<exists>k. clock_reads w \<le> k \<and> k < clock_reads w'
        \<and> us_of (utcnow e k) - us_of (publication_date p) < D * us_per_day)"

definition all_recent :: "env \<Rightarrow> world \<Rightarrow> int \<Rightarrow> JobPosting list \<Rightarrow> world \<Rightarrow> bool" where
  "all_recent e w0 D rs w \<longleftrightarrow>
     clock_reads w0 \<le> clock_reads w \<and> list_all (recent e w0 w D) rs"

section \<open>Concrete inputs\<close>

text \<open>\<^verbatim>\<open>datetime(y, m, d)\<close>\<close>

definition mk_date :: "nat \<Rightarrow> nat \<Rightarrow> nat \<Rightarrow> datetime" where
  "mk_date y m d =
     \<lparr>year = y, month = m, day = d, hour = 0, minute = 0, second = 0, microsecond = 0\<rparr>"

definition world0 :: world where
  "world0 = \<lparr>clock_reads = 0, net_calls = [], logged = [], files = Map.empty,
             stdout = [], stderr = []\<rparr>"

text \<open>A parser that knows three timestamps, a clock that stands still, a given network.\<close>

definition date_table :: "(string \<times> datetime) list" where
  "date_table =
     [(''2024-01-01T00:00:00'', mk_date 2024 1 1),
      (''2024-01-05T00:00:00'', mk_date 2024 1 5),
      (''2024-01-09T00:00:00'', mk_date 2024 1 9)]"

definition env_of :: "datetime \<Rightarrow> (nat \<Rightarrow> request \<Rightarrow> http_result) \<Rightarrow> env" where
  "env_of now net =
     \<lparr>utcnow = (\<lambda>k. now), requests_get = net, isoparse = map_of date_table,
      re_strip_html = (\<lambda>s. s), int_of_str = (\<lambda>s. None), can_open = (\<lambda>p. True),
      strftime_ymd = (\<lambda>d. take 10 (isoformat d)),
      tabulate = (\<lambda>rows headers. concat (concat (headers # rows)))\<rparr>"

definition no_network :: "nat \<Rightarrow> request \<Rightarrow> http_result" where
  "no_network k r = ConnError"

definition posting_on :: "datetime \<Rightarrow> JobPosting" where
  "posting_on d =
     \<lparr>title = ''Engineer'', company = ''Acme'', location = ''Remote'', publication_date = d,
      description = ''Build things'', url = ''https://example.org/job''\<rparr>"

text \<open>Items as the two sites send them, and a network that answers by request number.\<close>

definition remotive_job :: "string \<Rightarrow> string \<Rightarrow> json" where
  "remotive_job date place =
     JObj [(''title'', JStr ''Engineer''), (''company_name'', JStr ''Acme''),
           (''publication_date'', JStr date), (''candidate_required_location'', JStr place),
           (''url'', JStr ''https://example.org/job''), (''description'', JStr ''Build things'')]"

definition muse_job :: "string \<Rightarrow> string list \<Rightarrow> json" where
  "muse_job date places =
     JObj [(''name'', JStr ''Engineer''), (''company'', JObj [(''name'', JStr ''Acme'')]),
           (''publication_date'', JStr date),
           (''locations'', JArr (map (\<lambda>n. JObj [(''name'', JStr n)]) places)),
           (''contents'', JStr ''Build things''),
           (''refs'', JObj [(''landing_page'', JStr ''https://example.org/job'')])]"

definition serve :: "(nat \<times> http_result) list \<Rightarrow> nat \<Rightarrow> request \<Rightarrow> http_result" where
  "serve answers k r = (case map_of answers k of None \<Rightarrow> ConnError | Some a \<Rightarrow> a)"

text \<open>
  A Remotive response with a posting of 1 January and one of 9 January 2024, and a
  Muse first page with one posting of 9 January that announces two pages; the second
  request of the Muse run fails. The clock shows 10 January 2024.
\<close>

definition remotive_response :: http_result where
  "remotive_response =
     Response 200 (Some (JObj [(''jobs'',
       JArr [remotive_job ''2024-01-01T00:00:00'' ''Remote'',
             remotive_job ''2024-01-09T00:00:00'' ''Remote''])]))"

definition muse_page_1 :: http_result where
  "muse_page_1 =
     Response 200 (Some (JObj [(''results'', JArr [muse_job ''2024-01-09T00:00:00'' [''Remote'']]),
                               (''page_count'', JNum 2)]))"

definition env_remotive :: env where
  "env_remotive = env_of (mk_date 2024 1 10) (serve [(0, remotive_response)])"

definition env_muse :: env where
  "env_muse = env_of (mk_date 2024 1 10) (serve [(0, muse_page_1)])"

section \<open>Predicates of the statements\<close>

text \<open>\<open>a\<close> is dated no earlier than \<open>b\<close>, in Python's comparison of datetimes.\<close>

definition date_ge :: "JobPosting \<Rightarrow> JobPosting \<Rightarrow> bool" where
  "date_ge a b \<longleftrightarrow> dt_key (publication_date b) \<le> dt_key (publication_date a)"

section \<open>Properties\<close>

lemma td_days_dt_sub: "td_days (dt_sub a b) = (us_of a - us_of b) div us_per_day"
proof -
  define d where "d = toordinal a - toordinal b"
  define s where "s = day_seconds a - day_seconds b"
  define u where "u = int (microsecond a) - int (microsecond b)"
  have tot: "us_of a - us_of b = (d * 86400 + s) * 1000000 + u"
    by (simp add: us_of_def d_def s_def u_def algebra_simps)
  have "((d * 86400 + s) * 1000000 + u) div 86400000000
        = (((d * 86400 + s) * 1000000 + u) div 1000000) div 86400"
    by (simp add: div_mult2_eq)
  also have "\<dots> = (d * 86400 + (s + u div 1000000)) div 86400"
    by (simp add: add.assoc)
  also have "\<dots> = d + (s + u div 1000000) div 86400"
    by simp
  finally show ?thesis
    by (simp add: dt_sub_def mk_timedelta_def Let_def tot us_per_day_def
        d_def s_def u_def)
qed

text \<open>
  C10. For every positive \<open>D\<close> and every publication date strictly later than the
  clock reading, \<^verbatim>\<open>_within_days(date, D)\<close> returns True: a posting dated in the future
  is never excluded by the days filter.
\<close>

theorem within_days_future:
  assumes "us_of (utcnow e (clock_reads w)) < us_of date" and "0 < D"
  shows "fst (within_days e date (Some D) w) = True"
proof -
  have "us_of (utcnow e (clock_reads w)) - us_of date < 0"
    using assms(1) by simp
  then have "(us_of (utcnow e (clock_reads w)) - us_of date) div us_per_day < 0"
    by (simp add: us_per_day_def div_neg_pos_less0)
  then show ?thesis
    using assms(2) by (simp add: within_days_def Let_def td_days_dt_sub)
qed

lemmas ord_simps =
  toordinal_def days_before_year_def days_before_month_def DAYS_BEFORE_MONTH_def
  is_leap_def day_seconds_def us_of_def mk_date_def

theorem within_days_future_witness:
  "us_of (utcnow (env_of (mk_date 2024 1 1) no_network) (clock_reads world0))
     < us_of (mk_date 2024 1 5)
   \<and> (0::int) < 1
   \<and> fst (within_days (env_of (mk_date 2024 1 1) no_network) (mk_date 2024 1 5) (Some 1) world0)
       = True"
proof -
  have h: "us_of (utcnow (env_of (mk_date 2024 1 1) no_network) (clock_reads world0))
             < us_of (mk_date 2024 1 5)"
    by (simp add: env_of_def ord_simps)
  show ?thesis
    using h within_days_future [OF h, of 1] by simp
qed

subsection \<open>Sorting\<close>

lemma mset_insert_desc: "mset (insert_desc x ys) = add_mset x (mset ys)"
  by (induction ys) auto

lemma set_insert_desc: "set (insert_desc x ys) = insert x (set ys)"
  by (induction ys) auto

lemma sorted_insert_desc:
  "sorted_wrt date_ge ys \<Longrightarrow> sorted_wrt date_ge (insert_desc x ys)"
  by (induction ys) (auto simp: set_insert_desc date_ge_def)

text \<open>
  C5. For every list of postings, the list the orchestrator sorts it into is a
  permutation of it in which every posting is dated no earlier than the postings
  after it.
\<close>

theorem sort_desc_sorted_perm:
  "mset (sort_desc js) = mset js \<and> sorted_wrt date_ge (sort_desc js)"
  by (induction js) (auto simp: mset_insert_desc sorted_insert_desc)

subsection \<open>The registry and the unsupported adapters\<close>

lemma map_of_SCRAPERS: "map_of SCRAPERS k = Some cls \<Longrightarrow> site_name cls = k"
  by (auto simp: SCRAPERS_def split: if_splits)

lemma join_SCRAPERS: "join '', '' (map fst SCRAPERS) = ''themuse, indeed, linkedin, remotive''"
  by (simp add: SCRAPERS_def)



text \<open>
  C8. For every combination of arguments and in every world, \<open>search\<close> on the Indeed and
  on the LinkedIn adapter raises NotImplementedError with the adapter's explanation and
  leaves the world, and so the list of requests sent, as it was.
\<close>

theorem unsupported_search:
  "search e IndeedScraper query locf days max_results w
     = (Inl (NotImplementedError indeed_message), w)
   \<and> search e LinkedInScraper query locf days max_results w
     = (Inl (NotImplementedError linkedin_message), w)
   \<and> net_calls (snd (search e IndeedScraper query locf days max_results w)) = net_calls w
   \<and> net_calls (snd (search e LinkedInScraper query locf days max_results w)) = net_calls w
   \<and> indeed_message \<noteq> [] \<and> linkedin_message \<noteq> []
   \<and> get_scraper ''indeed'' = Inr IndeedScraper \<and> get_scraper ''linkedin'' = Inr LinkedInScraper"
  by (simp add: indeed_message_def linkedin_message_def get_scraper_def SCRAPERS_def
      lower_def lower_char_def)

subsection \<open>Substrings and sequencing\<close>

lemma startswith_iff: "startswith s p \<longleftrightarrow> (\<exists>t. s = p @ t)"
  by (induction s p rule: startswith.induct) auto

lemma str_in_iff: "str_in needle hay \<longleftrightarrow> (\<exists>p s. hay = p @ needle @ s)"
proof (induction hay)
  case Nil
  then show ?case by auto
next
  case (Cons c cs)
  show ?case
  proof
    assume "str_in needle (c # cs)"
    then consider "startswith (c # cs) needle" | "str_in needle cs" by auto
    then show "\<exists>p s. c # cs = p @ needle @ s"
    proof cases
      case 1
      then obtain t where "c # cs = needle @ t" by (auto simp: startswith_iff)
      then have "c # cs = [] @ needle @ t" by simp
      then show ?thesis by blast
    next
      case 2
      then obtain p s where "cs = p @ needle @ s" using Cons.IH by blast
      then have "c # cs = (c # p) @ needle @ s" by simp
      then show ?thesis by blast
    qed
  next
    assume "\<exists>p s. c # cs = p @ needle @ s"
    then obtain p s where ps: "c # cs = p @ needle @ s" by blast
    show "str_in needle (c # cs)"
    proof (cases p)
      case Nil
      with ps have "startswith (c # cs) needle" by (auto simp: startswith_iff)
      then show ?thesis by simp
    next
      case (Cons a p')
      with ps have "cs = p' @ needle @ s" by simp
      then have "str_in needle cs" using Cons.IH by blast
      then show ?thesis by simp
    qed
  qed
qed

lemma then_do_Inr [simp]: "then_do (Inr x) f = f x"
  by (simp add: then_do_def)

lemma then_do_Inl [simp]: "then_do (Inl err) f = Inl err"
  by (simp add: then_do_def)

subsection \<open>The location filter of Adapter A\<close>

lemma any_err_total: "any_err (\<lambda>x. Inr (P x)) xs = Inr (\<exists>x\<in>set xs. P x)"
  by (induction xs) auto

lemma any_err_JStr:
  "any_err (\<lambda>loc_name. then_do (py_lower loc_name) (\<lambda>s. Inr (P s))) (map JStr names)
     = Inr (\<exists>n\<in>set names. P (lower n))"
  by (induction names) (auto simp: py_lower_def)

lemma any_err_keywords:
  "any_err (\<lambda>loc_name. any_err (\<lambda>keyword. then_do (py_lower loc_name) (\<lambda>s. Inr (P keyword s))) ks)
     (map JStr names)
   = Inr (\<exists>n\<in>set names. \<exists>k\<in>set ks. P k (lower n))"
proof (induction names)
  case Nil
  then show ?case by simp
next
  case (Cons n names)
  have "any_err (\<lambda>keyword. then_do (py_lower (JStr n)) (\<lambda>s. Inr (P keyword s))) ks
          = Inr (\<exists>k\<in>set ks. P k (lower n))"
    by (simp add: py_lower_def any_err_total)
  with Cons show ?case by auto
qed



subsection \<open>Invariants of the loops\<close>

lemma muse_items_invariant:
  assumes "muse_items e locf days m jobs fetched results w = (Inr ex, w')"
    and "I results w"
    and "\<And>job rs w p w1. I rs w \<Longrightarrow> muse_item e locf days job w = (Inr (Some p), w1) \<Longrightarrow> I (rs @ [p]) w1"
    and "\<And>job rs w w1. I rs w \<Longrightarrow> muse_item e locf days job w = (Inr None, w1) \<Longrightarrow> I rs w1"
  shows "I (results_of ex) w'"
  using assms(1,2)
proof (induction jobs arbitrary: fetched results w)
  case Nil
  then show ?case by auto
next
  case (Cons job jobs)
  obtain r w1 where it: "muse_item e locf days job w = (r, w1)"
    by (cases "muse_item e locf days job w")
  show ?case
  proof (cases r)
    case (Inl err)
    with Cons.prems it show ?thesis by simp
  next
    case (Inr o1)
    show ?thesis
    proof (cases o1)
      case None
      with Inr it Cons.prems assms(4) [of results w job w1] Cons.IH [of fetched results w1]
      show ?thesis by simp
    next
      case (Some p)
      have I1: "I (results @ [p]) w1"
        using assms(3) [of results w job p w1] Cons.prems(2) it Inr Some by simp
      show ?thesis
      proof (cases "case m of None \<Rightarrow> False | Some k \<Rightarrow> fetched + 1 \<ge> k")
        case True
        with Inr Some it Cons.prems(1) have "ex = Return (results @ [p])" "w' = w1"
          by (auto simp: Let_def)
        with I1 show ?thesis by simp
      next
        case False
        with Inr Some it Cons.prems(1)
        have "muse_items e locf days m jobs (fetched + 1) (results @ [p]) w1 = (Inr ex, w')"
          by (auto simp: Let_def)
        with I1 Cons.IH show ?thesis by blast
      qed
    qed
  qed
qed

lemma muse_pages_unfold:
  "muse_pages e query locf days m page fetched total_pages results w =
     (if past_last_page total_pages page then (Inr results, w)
      else
        (case muse_fetch e query locf page w of
           Break w1 \<Rightarrow> (Inr results, w1)
         | Raise err w1 \<Rightarrow> (Inl err, w1)
         | Page data items w1 \<Rightarrow>
             (case muse_items e locf days m items fetched results w1 of
                (Inl err, w2) \<Rightarrow> (Inl err, w2)
              | (Inr (Return rs), w2) \<Rightarrow> (Inr rs, w2)
              | (Inr (Exhausted rs f), w2) \<Rightarrow>
                  muse_pages e query locf days m (page + 1) f
                    (next_total_pages e data total_pages) rs w2)))"
proof (cases total_pages)
  case None
  show ?thesis
    apply (subst muse_pages.simps)
    apply (simp add: None past_last_page_def muse_fetch_def next_total_pages_def Let_def
        split: http_result.splits option.splits sum.splits prod.splits items_exit.splits)
    done
next
  case (Some t)
  show ?thesis
    apply (subst muse_pages.simps)
    apply (simp add: Some past_last_page_def muse_fetch_def next_total_pages_def Let_def
        split: http_result.splits option.splits sum.splits prod.splits items_exit.splits)
    done
qed

lemma muse_pages_induct [case_names step]:
  assumes "\<And>page fetched total_pages results w.
     (\<And>data items w1 rs f w2.
        \<not> past_last_page total_pages page \<Longrightarrow>
        muse_fetch e query locf page w = Page data items w1 \<Longrightarrow>
        muse_items e locf days m items fetched results w1 = (Inr (Exhausted rs f), w2) \<Longrightarrow>
        P (page + 1) f (next_total_pages e data total_pages) rs w2)
     \<Longrightarrow> P page fetched total_pages results w"
  shows "P page fetched total_pages results w"
proof -
  have "e' = e \<Longrightarrow> q' = query \<Longrightarrow> l' = locf \<Longrightarrow> d' = days \<Longrightarrow> m' = m
          \<Longrightarrow> P page fetched total_pages results w" for e' q' l' d' m'
  proof (induction e' q' l' d' m' page fetched total_pages results w rule: muse_pages.induct)
    case (1 e' q' l' d' m' page fetched total_pages results w)
    show ?case
    proof (rule assms)
      fix data items w1 rs f w2
      assume np: "\<not> past_last_page total_pages page"
        and f: "muse_fetch e query locf page w = Page data items w1"
        and it: "muse_items e locf days m items fetched results w1 = (Inr (Exhausted rs f), w2)"
      show "P (page + 1) f (next_total_pages e data total_pages) rs w2"
        using "1.IH" "1.prems" np f it
        by (auto simp: muse_fetch_def past_last_page_def next_total_pages_def Let_def
            split: http_result.splits option.splits sum.splits if_splits)
    qed
  qed
  then show ?thesis by simp
qed

lemma muse_pages_invariant:
  assumes "muse_pages e query locf days m page fetched total_pages results w = (Inr rs, w')"
    and "I results w"
    and step: "\<And>job rs w p w1. I rs w \<Longrightarrow> muse_item e locf days job w = (Inr (Some p), w1) \<Longrightarrow> I (rs @ [p]) w1"
    and skip: "\<And>job rs w w1. I rs w \<Longrightarrow> muse_item e locf days job w = (Inr None, w1) \<Longrightarrow> I rs w1"
    and net: "\<And>rs w req. I rs w \<Longrightarrow> I rs (w\<lparr>net_calls := net_calls w @ [req]\<rparr>)"
    and lg: "\<And>rs w l. I rs w \<Longrightarrow> I rs (w\<lparr>logged := logged w @ [l]\<rparr>)"
  shows "I rs w'"
  using assms(1,2)
proof (induction page fetched total_pages results w rule: muse_pages_induct [where e = e and query = query and locf = locf and days = days and m = m])
  case (step page fetched total_pages results w)
  note items = muse_items_invariant [where I = I, OF _ _ assms(3,4)]
  let ?w1 = "w\<lparr>net_calls := net_calls w @ [Get muse_API_ENDPOINT (muse_params query locf page)]\<rparr>"
  have I1: "I results ?w1"
    using net [OF step.prems(2)] .
  have I1l: "I results (?w1\<lparr>logged := logged w @ [l]\<rparr>)" for l
    using lg [OF I1, of l] by simp
  have fetchI: "I results w1" if "muse_fetch e query locf page w = Break w1" for w1
    using that I1 I1l
    by (auto simp: muse_fetch_def Let_def split: http_result.splits option.splits sum.splits if_splits)
  have pageI: "I results w1" if "muse_fetch e query locf page w = Page data items w1" for data items w1
    using that I1
    by (auto simp: muse_fetch_def Let_def split: http_result.splits option.splits sum.splits if_splits)
  show ?case
  proof (cases "past_last_page total_pages page")
    case True
    with step.prems show ?thesis by (simp add: muse_pages_unfold)
  next
    case False
    show ?thesis
    proof (cases "muse_fetch e query locf page w")
      case (Break w1)
      with False step.prems(1) fetchI show ?thesis by (simp add: muse_pages_unfold)
    next
      case (Raise err w1)
      with False step.prems(1) show ?thesis by (simp add: muse_pages_unfold)
    next
      case (Page data items w1)
      obtain r w2 where it: "muse_items e locf days m items fetched results w1 = (r, w2)"
        by (cases "muse_items e locf days m items fetched results w1")
      show ?thesis
      proof (cases r)
        case (Inl err)
        with False Page it step.prems(1) show ?thesis by (simp add: muse_pages_unfold)
      next
        case (Inr ex)
        have I2: "I (results_of ex) w2"
          using items [OF it [unfolded Inr] pageI [OF Page]] .
        show ?thesis
        proof (cases ex)
          case (Return rs1)
          with False Page it Inr step.prems(1) I2 show ?thesis by (simp add: muse_pages_unfold)
        next
          case (Exhausted rs1 f)
          with False Page it Inr step.prems(1)
          have "muse_pages e query locf days m (page + 1) f (next_total_pages e data total_pages) rs1 w2
                  = (Inr rs, w')"
            by (simp add: muse_pages_unfold)
          moreover have "I rs1 w2" using I2 Exhausted by simp
          ultimately show ?thesis
            using step.IH [OF False Page it [unfolded Inr Exhausted]] by blast
        qed
      qed
    qed
  qed
qed

lemma remotive_loop_invariant:
  assumes "remotive_loop e locf days m jobs results w = (Inr rs, w')"
    and "I results w"
    and "\<And>job rs w p w1. I rs w \<Longrightarrow> remotive_item e locf days job w = (Inr (Some p), w1) \<Longrightarrow> I (rs @ [p]) w1"
    and "\<And>job rs w w1. I rs w \<Longrightarrow> remotive_item e locf days job w = (Inr None, w1) \<Longrightarrow> I rs w1"
  shows "I rs w'"
  using assms(1,2)
proof (induction jobs arbitrary: results w)
  case Nil
  then show ?case by auto
next
  case (Cons job jobs)
  obtain r w1 where it: "remotive_item e locf days job w = (r, w1)"
    by (cases "remotive_item e locf days job w")
  show ?case
  proof (cases r)
    case (Inl err)
    with Cons.prems it show ?thesis by simp
  next
    case (Inr o1)
    show ?thesis
    proof (cases o1)
      case None
      with Inr it Cons.prems assms(4) [of results w job w1] Cons.IH [of results w1]
      show ?thesis by simp
    next
      case (Some p)
      have I1: "I (results @ [p]) w1"
        using assms(3) [of results w job p w1] Cons.prems(2) it Inr Some by simp
      show ?thesis
      proof (cases "case m of None \<Rightarrow> False | Some k \<Rightarrow> int (length (results @ [p])) \<ge> k")
        case True
        with Inr Some it Cons.prems(1) have "rs = results @ [p]" "w' = w1"
          by (auto simp: Let_def)
        with I1 show ?thesis by simp
      next
        case False
        with Inr Some it Cons.prems(1)
        have "remotive_loop e locf days m jobs (results @ [p]) w1 = (Inr rs, w')"
          by (auto simp: Let_def)
        with I1 Cons.IH show ?thesis by blast
      qed
    qed
  qed
qed

subsection \<open>The days filter\<close>

lemma div_less_us: "(x div us_per_day < D) = (x < D * us_per_day)"
  unfolding us_per_day_def by linarith

lemma within_days_reads: "within_days e d days w = (b, w') \<Longrightarrow> clock_reads w \<le> clock_reads w'"
  by (auto simp: within_days_def Let_def split: option.splits)

lemma within_days_Some:
  "within_days e d (Some D) w = (True, w') \<Longrightarrow>
     clock_reads w' = Suc (clock_reads w)
     \<and> us_of (utcnow e (clock_reads w)) - us_of d < D * us_per_day"
  by (auto simp: within_days_def Let_def td_days_dt_sub div_less_us)

lemma muse_item_reads:
  "muse_item e locf days job w = (r, w') \<Longrightarrow> clock_reads w \<le> clock_reads w'"
  by (auto simp: muse_item_def split: option.splits prod.splits bool.splits dest: within_days_reads)

lemma muse_item_date:
  "muse_item e locf days job w = (Inr (Some p), w') \<Longrightarrow>
     \<exists>d w0. parse_date e (subscript_key job ''publication_date'') = Some d
       \<and> publication_date p = d \<and> within_days e d days w = (True, w')"
  by (auto simp: muse_item_def then_do_def split: option.splits prod.splits bool.splits sum.splits if_splits)

lemma muse_item_recent:
  "muse_item e locf (Some D) job w = (Inr (Some p), w') \<Longrightarrow> recent e w w' D p"
  by (fastforce simp: recent_def dest!: muse_item_date within_days_Some)

lemma remotive_item_reads:
  "remotive_item e locf days job w = (r, w') \<Longrightarrow> clock_reads w \<le> clock_reads w'"
  by (auto simp: remotive_item_def split: option.splits prod.splits bool.splits dest: within_days_reads)

lemma remotive_item_date:
  "remotive_item e locf days job w = (Inr (Some p), w') \<Longrightarrow>
     \<exists>d. parse_date e (dict_get job ''publication_date'' JNull) = Some d
       \<and> publication_date p = d \<and> within_days e d days w = (True, w')"
  by (auto simp: remotive_item_def then_do_def split: option.splits prod.splits bool.splits sum.splits if_splits)

lemma remotive_item_recent:
  "remotive_item e locf (Some D) job w = (Inr (Some p), w') \<Longrightarrow> recent e w w' D p"
  by (fastforce simp: recent_def dest!: remotive_item_date within_days_Some)

lemma recent_later:
  assumes "recent e w0 w D p" and "clock_reads w \<le> clock_reads w1"
  shows "recent e w0 w1 D p"
proof -
  from assms(1) obtain k where k: "clock_reads w0 \<le> k" "k < clock_reads w"
    "us_of (utcnow e k) - us_of (publication_date p) < D * us_per_day"
    by (auto simp: recent_def)
  from k(2) assms(2) have "k < clock_reads w1" by simp
  with k(1,3) show ?thesis unfolding recent_def by blast
qed

lemma recent_earlier:
  assumes "recent e w w1 D p" and "clock_reads w0 \<le> clock_reads w"
  shows "recent e w0 w1 D p"
proof -
  from assms(1) obtain k where k: "clock_reads w \<le> k" "k < clock_reads w1"
    "us_of (utcnow e k) - us_of (publication_date p) < D * us_per_day"
    by (auto simp: recent_def)
  from k(1) assms(2) have "clock_reads w0 \<le> k" by simp
  with k(2,3) show ?thesis unfolding recent_def by blast
qed

lemma all_recent_later:
  "all_recent e w0 D rs w \<Longrightarrow> clock_reads w \<le> clock_reads w1 \<Longrightarrow> all_recent e w0 D rs w1"
  by (auto simp: all_recent_def list_all_iff intro: recent_later)

lemma all_recent_snoc:
  "all_recent e w0 D rs w \<Longrightarrow> recent e w w1 D p \<Longrightarrow> clock_reads w \<le> clock_reads w1
     \<Longrightarrow> all_recent e w0 D (rs @ [p]) w1"
  by (auto simp: all_recent_def list_all_iff intro: recent_later recent_earlier)

lemma all_recent_start: "all_recent e w D [] w"
  by (simp add: all_recent_def)

lemma muse_search_recent:
  assumes "muse_search e query locf (Some D) m w = (Inr rs, w')"
  shows "all_recent e w D rs w'"
proof (rule muse_pages_invariant [where I = "all_recent e w D", OF assms [unfolded muse_search_def]])
  show "all_recent e w D [] w" by (rule all_recent_start)
next
  fix job rs w1 p w2
  assume "all_recent e w D rs w1" "muse_item e locf (Some D) job w1 = (Inr (Some p), w2)"
  then show "all_recent e w D (rs @ [p]) w2"
    by (blast intro: all_recent_snoc muse_item_recent muse_item_reads)
next
  fix job rs w1 w2
  assume "all_recent e w D rs w1" "muse_item e locf (Some D) job w1 = (Inr None, w2)"
  then show "all_recent e w D rs w2"
    by (blast intro: all_recent_later muse_item_reads)
next
  fix rs w1 req
  assume "all_recent e w D rs w1"
  then show "all_recent e w D rs (w1\<lparr>net_calls := net_calls w1 @ [req]\<rparr>)"
    by (auto simp: all_recent_def recent_def list_all_iff)
next
  fix rs w1 l
  assume "all_recent e w D rs w1"
  then show "all_recent e w D rs (w1\<lparr>logged := logged w1 @ [l]\<rparr>)"
    by (auto simp: all_recent_def recent_def list_all_iff)
qed

lemma remotive_search_recent:
  assumes "remotive_search e query locf (Some D) m w = (Inr rs, w')"
  shows "all_recent e w D rs w'"
proof -
  let ?w1 = "w\<lparr>net_calls := net_calls w @ [Get remotive_API_ENDPOINT (remotive_params query)]\<rparr>"
  have start: "all_recent e w D [] ?w1"
    by (simp add: all_recent_def)
  have loop: "all_recent e w D rs w'"
    if "remotive_loop e locf (Some D) m jobs [] ?w1 = (Inr rs, w')" for jobs
  proof (rule remotive_loop_invariant [where I = "all_recent e w D", OF that start])
    fix job rs w1 p w2
    assume "all_recent e w D rs w1" "remotive_item e locf (Some D) job w1 = (Inr (Some p), w2)"
    then show "all_recent e w D (rs @ [p]) w2"
      by (blast intro: all_recent_snoc remotive_item_recent remotive_item_reads)
  next
    fix job rs w1 w2
    assume "all_recent e w D rs w1" "remotive_item e locf (Some D) job w1 = (Inr None, w2)"
    then show "all_recent e w D rs w2"
      by (blast intro: all_recent_later remotive_item_reads)
  qed
  show ?thesis
    using assms loop
    by (auto simp: remotive_search_def Let_def all_recent_def
        split: http_result.splits if_splits option.splits sum.splits)
qed

lemmas run_simps =
  env_of_def serve_def date_table_def mk_date_def world0_def posting_on_def
  remotive_job_def muse_job_def
  dict_get_def subscript_key_def subscript_0_def truthy_def py_iter_def py_lower_def
  py_strip_def parse_date_def strip_html_def as_text_def int_or_0_def
  strip_def isspace_def lower_def lower_char_def
  within_days_def td_days_dt_sub us_per_day_def
  toordinal_def days_before_year_def days_before_month_def DAYS_BEFORE_MONTH_def
  is_leap_def day_seconds_def us_of_def Let_def

lemma remotive_run:
  "search env_remotive RemotiveScraper ''python'' None (Some 3) (Some 50) world0
     = (Inr [posting_on (mk_date 2024 1 9)],
        world0\<lparr>clock_reads := 2,
               net_calls := [Get remotive_API_ENDPOINT [(''search'', JStr ''python'')]]\<rparr>)"
  by (simp add: remotive_search_def remotive_params_def remotive_item_def
      env_remotive_def remotive_response_def run_simps)



subsection \<open>Failed requests\<close>

lemma muse_run:
  "search env_muse TheMuseScraper ''python'' None None (Some 50) world0
     = (Inr [posting_on (mk_date 2024 1 9)],
        world0\<lparr>net_calls := [Get muse_API_ENDPOINT [(''page'', JNum 1), (''q'', JStr ''python'')],
                             Get muse_API_ENDPOINT [(''page'', JNum 2), (''q'', JStr ''python'')]],
               logged := [MuseContactError]\<rparr>)"
  by (simp add: muse_search_def muse_pages_unfold muse_fetch_def muse_params_def muse_item_def
      past_last_page_def next_total_pages_def first_location_def
      env_muse_def muse_page_1_def run_simps)

text \<open>
  C2 as stated fails: the second request of this run of Adapter A raises, and the call
  returns the posting of the first page, not the empty list.
\<close>

theorem soft_fail_counterexample:
  "requests_get env_muse 1 (Get muse_API_ENDPOINT (muse_params ''python'' None 2)) = ConnError
   \<and> fst (search env_muse TheMuseScraper ''python'' None None (Some 50) world0)
       = Inr [posting_on (mk_date 2024 1 9)]
   \<and> fst (search env_muse TheMuseScraper ''python'' None None (Some 50) world0) \<noteq> Inr []"
proof -
  have "requests_get env_muse 1 (Get muse_API_ENDPOINT (muse_params ''python'' None 2)) = ConnError"
    by (simp add: env_muse_def env_of_def serve_def)
  then show ?thesis
    using muse_run by simp
qed

lemma muse_fetch_failed:
  assumes "http_failed (requests_get e (length (net_calls w))
             (Get muse_API_ENDPOINT (muse_params query locf page)))"
  shows "\<exists>w1. muse_fetch e query locf page w = Break w1
           \<and> length (logged w1) = Suc (length (logged w))"
  using assms
  by (auto simp: muse_fetch_def http_failed_def Let_def split: http_result.splits)

text \<open>
  C2, amended. A request that raises or is answered with a status other than 200 never
  makes \<open>search\<close> raise: the failure is logged, and the call returns at once what it has
  collected so far. For Adapter B, and for Adapter A when the first request fails, that
  is the empty list; for Adapter A on a later page it is the postings of the pages before.
\<close>

theorem soft_fail:
  "(http_failed (requests_get e (length (net_calls w))
        (Get remotive_API_ENDPOINT (remotive_params query))) \<longrightarrow>
      fst (remotive_search e query locf days m w) = Inr []
      \<and> length (logged (snd (remotive_search e query locf days m w))) = Suc (length (logged w)))
   \<and> (\<not> past_last_page total_pages page
      \<and> http_failed (requests_get e (length (net_calls w))
            (Get muse_API_ENDPOINT (muse_params query locf page))) \<longrightarrow>
      fst (muse_pages e query locf days m page fetched total_pages results w) = Inr results
      \<and> length (logged (snd (muse_pages e query locf days m page fetched total_pages results w)))
          = Suc (length (logged w)))
   \<and> (http_failed (requests_get e (length (net_calls w))
          (Get muse_API_ENDPOINT (muse_params query locf 1))) \<longrightarrow>
      fst (muse_search e query locf days m w) = Inr [])"
proof -
  have a: "fst (remotive_search e query locf days m w) = Inr []
      \<and> length (logged (snd (remotive_search e query locf days m w))) = Suc (length (logged w))"
    if "http_failed (requests_get e (length (net_calls w))
          (Get remotive_API_ENDPOINT (remotive_params query)))"
    using that
    by (auto simp: remotive_search_def http_failed_def Let_def split: http_result.splits)
  have b: "fst (muse_pages e query locf days m page fetched total_pages results w) = Inr results
      \<and> length (logged (snd (muse_pages e query locf days m page fetched total_pages results w)))
          = Suc (length (logged w))"
    if "\<not> past_last_page total_pages page"
      and "http_failed (requests_get e (length (net_calls w))
             (Get muse_API_ENDPOINT (muse_params query locf page)))"
    for page fetched total_pages results
    using that(1) muse_fetch_failed [OF that(2)]
    by (auto simp: muse_pages_unfold)
  have c: "fst (muse_search e query locf days m w) = Inr []"
    if "http_failed (requests_get e (length (net_calls w))
          (Get muse_API_ENDPOINT (muse_params query locf 1)))"
    using b [of None 1 0 "[]"] that by (simp add: muse_search_def past_last_page_def)
  from a b c show ?thesis by blast
qed

theorem soft_fail_witness:
  "http_failed (requests_get (env_of (mk_date 2024 1 10) no_network) (length (net_calls world0))
      (Get remotive_API_ENDPOINT (remotive_params ''python'')))
   \<and> fst (remotive_search (env_of (mk_date 2024 1 10) no_network) ''python'' None (Some 7) (Some 50) world0)
       = Inr []
   \<and> \<not> past_last_page (Some 2) 2
   \<and> http_failed (requests_get (env_of (mk_date 2024 1 10) no_network) (length (net_calls world0))
        (Get muse_API_ENDPOINT (muse_params ''python'' None 2)))
   \<and> fst (muse_pages (env_of (mk_date 2024 1 10) no_network) ''python'' None (Some 7) (Some 50) 2 1
            (Some 2) [posting_on (mk_date 2024 1 9)] world0)
       = Inr [posting_on (mk_date 2024 1 9)]
   \<and> http_failed (requests_get (env_of (mk_date 2024 1 10) no_network) (length (net_calls world0))
        (Get muse_API_ENDPOINT (muse_params ''python'' None 1)))
   \<and> fst (muse_search (env_of (mk_date 2024 1 10) no_network) ''python'' None (Some 7) (Some 50) world0)
       = Inr []"
proof -
  have f: "http_failed (requests_get (env_of (mk_date 2024 1 10) no_network) k r)" for k r
    by (simp add: http_failed_def env_of_def no_network_def)
  have p: "\<not> past_last_page (Some 2) 2"
    by (simp add: past_last_page_def)
  show ?thesis
    using f p
      soft_fail [of "env_of (mk_date 2024 1 10) no_network" world0 "''python''" None "Some 7"
        "Some 50" "Some 2" 2 1 "[posting_on (mk_date 2024 1 9)]"]
    by simp
qed

subsection \<open>The cap on the number of results\<close>

text \<open>
  C1 at \<open>max_results = 0\<close>: both adapters compare the count with the cap only after they
  have appended a posting, so a cap of zero returns the first qualifying posting.
\<close>

theorem max_results_zero:
  "fst (search env_remotive RemotiveScraper ''python'' None None (Some 0) world0)
     = Inr [posting_on (mk_date 2024 1 1)]
   \<and> fst (search env_muse TheMuseScraper ''python'' None None (Some 0) world0)
     = Inr [posting_on (mk_date 2024 1 9)]"
proof -
  have a: "search env_remotive RemotiveScraper ''python'' None None (Some 0) world0
      = (Inr [posting_on (mk_date 2024 1 1)],
         world0\<lparr>net_calls := [Get remotive_API_ENDPOINT [(''search'', JStr ''python'')]]\<rparr>)"
    by (simp add: remotive_search_def remotive_params_def remotive_item_def
        env_remotive_def remotive_response_def run_simps)
  have b: "search env_muse TheMuseScraper ''python'' None None (Some 0) world0
      = (Inr [posting_on (mk_date 2024 1 9)],
         world0\<lparr>net_calls := [Get muse_API_ENDPOINT [(''page'', JNum 1), (''q'', JStr ''python'')]]\<rparr>)"
    by (simp add: muse_search_def muse_pages_unfold muse_fetch_def muse_params_def muse_item_def
        past_last_page_def next_total_pages_def first_location_def
        env_muse_def muse_page_1_def run_simps)
  from a b show ?thesis by simp
qed

subsection \<open>The file output\<close>

lemma csv_header:
  "csv_row csv_fieldnames
     = ''title,company,location,publication_date,description,url'' @ [CHR 0x0D, CHR 0x0A]"
  by (simp add: csv_row_def csv_fieldnames_def csv_field_def)

lemma csv_dict_row_to_dict:
  "csv_dict_row (to_dict job)
     = csv_row [title job, company job, location job, isoformat (publication_date job),
                description job, url job]"
  by (simp add: csv_dict_row_def to_dict_def csv_fieldnames_def)


lemma splitext_examples:
  "splitext ''out.txt'' = (''out'', ''.txt'')"
  "splitext ''jobs.JSON'' = (''jobs'', ''.JSON'')"
  "splitext ''jobs.csv'' = (''jobs'', ''.csv'')"
  "splitext ''.json'' = (''.json'', [])"
  by (simp_all add: splitext_def rfind_def Let_def)

lemma isoformat_example: "isoformat (mk_date 2024 1 9) = ''2024-01-09T00:00:00''"
  by (simp add: isoformat_def fmt_d_def dec.simps digit_char_def mk_date_def)


end
